theory Spec2Isabelle
  imports Complex_Main
begin

section \<open>Python values\<close>

text \<open>
  Python floats and the entries of NumPy float arrays are written as reals
  (\<^typ>\<open>real\<close>). That is an idealisation: the source computes in IEEE doubles, which
  round every product, sum and quotient, and the sample values and sample counts of
  the source can differ from the exact ones. The development therefore proves no
  general statement about the values or the number of samples. What it relies on is
  independent of rounding: which branch a function takes (an exception, an empty
  array, an array), the lengths of the arrays of the Fourier transform, and what is
  stored in a dictionary.
  A one-dimensional NumPy array is a list. Python integers are \<^typ>\<open>int\<close>.
  A raised exception is the \<open>Inl\<close> branch of a sum.
\<close>

datatype py_error =
    NameError string
  | ValueError string
  | ZeroDivisionError string

text \<open>What a function of the package hands back: \<open>None\<close> or an array.\<close>

datatype py_value = PyNone | NDArray "real list"

text \<open>A \<open>dict\<close> keeps its keys in insertion order: an association list.\<close>

type_synonym ('k, 'v) dict = "('k \<times> 'v) list"

definition keys :: "('k, 'v) dict \<Rightarrow> 'k set" where
  "keys d = fst ` set d"

text \<open>\<open>d.get(k)\<close>.\<close>

definition dict_get :: "('k, 'v) dict \<Rightarrow> 'k \<Rightarrow> 'v option" where
  "dict_get d k = map_of d k"

text \<open>\<open>d.setdefault(k, v)\<close>: a present key keeps its value, a new one is appended.\<close>

definition setdefault :: "('k, 'v) dict \<Rightarrow> 'k \<Rightarrow> 'v \<Rightarrow> ('k, 'v) dict" where
  "setdefault d k v = (if k \<in> keys d then d else d @ [(k, v)])"

text \<open>\<open>str(i)\<close> for an integer, as the f-strings and \<open>%s\<close> print it.\<close>

fun str_nat :: "nat \<Rightarrow> string" where
  "str_nat n =
     (if n < 10 then [char_of (48 + n)]
      else str_nat (n div 10) @ [char_of (48 + n mod 10)])"

declare str_nat.simps [simp del]

definition str_int :: "int \<Rightarrow> string" where
  "str_int i = (if i < 0 then CHR ''-'' # str_nat (nat (- i)) else str_nat (nat i))"

text \<open>\<open>int(x)\<close> on a float truncates towards zero.\<close>

definition py_int :: "real \<Rightarrow> int" where
  "py_int x = (if 0 \<le> x then \<lfloor>x\<rfloor> else \<lceil>x\<rceil>)"

section \<open>NumPy primitives\<close>

text \<open>
  \<open>np.linspace(start, stop, num, endpoint)\<close>, after NumPy's own function: a negative
  \<open>num\<close> raises \<open>ValueError\<close>; otherwise \<open>arange(0, num)\<close> is scaled by
  \<open>step = (stop - start) / div\<close> (\<open>div\<close> is \<open>num - 1\<close> with the endpoint, \<open>num\<close>
  without), shifted by \<open>start\<close>, and with the endpoint the last entry is set to
  \<open>stop\<close>.
\<close>

definition linspace :: "real \<Rightarrow> real \<Rightarrow> int \<Rightarrow> bool \<Rightarrow> py_error + real list" where
  "linspace start stop num endpoint =
     (if num < 0 then
        Inl (ValueError (''Number of samples, '' @ str_int num @ '', must be non-negative.''))
      else
        let dv = (if endpoint then num - 1 else num);
            delta = stop - start;
            y0 = map real_of_int [0..num - 1];
            y1 = (if 0 < dv then
                    (let step = delta / real_of_int dv in
                     if step = 0 then map (\<lambda>v. v * delta) (map (\<lambda>v. v / real_of_int dv) y0)
                     else map (\<lambda>v. v * step) y0)
                  else map (\<lambda>v. v * delta) y0);
            y2 = map (\<lambda>v. v + start) y1
        in Inr (if endpoint \<and> 1 < num then y2[nat (num - 1) := stop] else y2))"

text \<open>
  Elementwise array arithmetic, as NumPy broadcasts a scalar over an array.
  \<open>np.sign\<close> is \<open>-1\<close>, \<open>0\<close> or \<open>1\<close>; \<open>np.floor\<close> returns floats.
\<close>

definition np_scalar_mul :: "real \<Rightarrow> real list \<Rightarrow> real list" where
  "np_scalar_mul c xs = map (\<lambda>x. c * x) xs"

definition np_scalar_add :: "real \<Rightarrow> real list \<Rightarrow> real list" where
  "np_scalar_add c xs = map (\<lambda>x. c + x) xs"

definition np_add_scalar :: "real list \<Rightarrow> real \<Rightarrow> real list" where
  "np_add_scalar xs c = map (\<lambda>x. x + c) xs"

definition np_div_scalar :: "real list \<Rightarrow> real \<Rightarrow> real list" where
  "np_div_scalar xs c = map (\<lambda>x. x / c) xs"

definition np_sub :: "real list \<Rightarrow> real list \<Rightarrow> real list" where
  "np_sub xs ys = map2 (\<lambda>x y. x - y) xs ys"

definition np_sin :: "real list \<Rightarrow> real list" where
  "np_sin xs = map sin xs"

definition np_arcsin :: "real list \<Rightarrow> real list" where
  "np_arcsin xs = map arcsin xs"

definition sign :: "real \<Rightarrow> real" where
  "sign x = (if x < 0 then - 1 else if x = 0 then 0 else 1)"

definition np_sign :: "real list \<Rightarrow> real list" where
  "np_sign xs = map sign xs"

definition np_floor :: "real list \<Rightarrow> real list" where
  "np_floor xs = map (\<lambda>x. real_of_int \<lfloor>x\<rfloor>) xs"

text \<open>
  \<open>np.fft.fft(a)\<close>: fewer than one data point raises \<open>ValueError\<close>; otherwise entry
  \<open>k\<close> is the sum over \<open>m\<close> of \<open>a[m] * exp(-2 pi i m k / n)\<close>.
\<close>

definition np_fft :: "complex list \<Rightarrow> py_error + complex list" where
  "np_fft a =
     (let n = length a in
      if n < 1 then
        Inl (ValueError (''Invalid number of FFT data points ('' @ str_int (int n) @ '') specified.''))
      else
        Inr (map (\<lambda>k. sum_list (map (\<lambda>m. a ! m * cis (- (2 * pi * real m * real k / real n)))
                                   [0..<n]))
               [0..<n]))"

text \<open>
  \<open>np.fft.fftfreq(n, d)\<close>: \<open>val = 1.0 / (n * d)\<close> (a zero divisor raises), the integers
  \<open>0, ..., (n - 1) // 2\<close> followed by \<open>-(n // 2), ..., -1\<close>, each times \<open>val\<close>.
\<close>

definition fftfreq :: "int \<Rightarrow> real \<Rightarrow> py_error + real list" where
  "fftfreq n d =
     (if real_of_int n * d = 0 then Inl (ZeroDivisionError ''float division by zero'')
      else
        let val = 1 / (real_of_int n * d);
            N = (n - 1) div 2 + 1;
            p1 = [0..N - 1];
            p2 = [- (n div 2)..- 1]
        in Inr (map (\<lambda>k. real_of_int k * val) (p1 @ p2)))"

section \<open>time.py\<close>

record Time =
  duration :: real
  start :: real

text \<open>\<open>Time._sampling_rate\<close>, in Hz.\<close>

definition sampling_rate :: int where
  "sampling_rate = 44100"

definition get_array :: "Time \<Rightarrow> py_error + real list" where
  "get_array self =
     linspace (start self) (start self + duration self)
       (py_int (real_of_int sampling_rate * duration self)) False"

definition get_sampling_rate :: int where
  "get_sampling_rate = sampling_rate"

section \<open>osc.py\<close>

type_synonym WaveGenerator = "real list \<Rightarrow> real \<Rightarrow> real \<Rightarrow> real list"

text \<open>
  The four built-in generators, as their formulas read over the reals. They are the
  entries of the initial registry; their values in doubles (the sine near a multiple
  of \<open>pi\<close>, the rounding of \<open>0.5 + freq * t\<close> before the floor) are not what these
  formulas give, and nothing below depends on the values they return.
\<close>

definition generate_sin :: WaveGenerator where
  "generate_sin t freq phase = np_sin (np_add_scalar (np_scalar_mul (2 * pi * freq) t) phase)"

definition generate_sqr :: WaveGenerator where
  "generate_sqr t freq phase =
     np_sign (np_sin (np_add_scalar (np_scalar_mul (2 * pi * freq) t) phase))"

definition generate_tri :: WaveGenerator where
  "generate_tri t freq phase =
     np_div_scalar
       (np_scalar_mul 2 (np_arcsin (np_sin (np_add_scalar (np_scalar_mul (2 * pi * freq) t) phase))))
       pi"

definition generate_saw :: WaveGenerator where
  "generate_saw t freq phase =
     (let offset = phase / (2 * pi) in
      np_scalar_mul 2
        (np_sub (np_add_scalar (np_scalar_mul freq t) offset)
                (np_floor (np_add_scalar (np_scalar_add (1 / 2) (np_scalar_mul freq t)) offset))))"

text \<open>
  The module-level registry \<open>_oscs\<close>. It is the one piece of global state of the module:
  every function of \<open>osc.py\<close> takes the registry it runs in and returns its result
  together with the registry it leaves.
\<close>

type_synonym registry = "(string, WaveGenerator) dict"

definition oscs_init :: registry where
  "oscs_init =
     [(''Sine'', generate_sin),
      (''Square'', generate_sqr),
      (''Triangle'', generate_tri),
      (''Sawtooth'', generate_saw)]"

definition quoted :: "string \<Rightarrow> string" where
  "quoted name = [CHR 0x27] @ name @ [CHR 0x27]"

definition add_oscillator ::
  "string \<Rightarrow> WaveGenerator \<Rightarrow> registry \<Rightarrow> (py_error + unit) \<times> registry" where
  "add_oscillator name wave_func oscs =
     (if name \<in> keys oscs then
        (Inl (NameError (''Wave name '' @ quoted name @ '' already exists!'')), oscs)
      else (Inr (), oscs @ [(name, wave_func)]))"

record Oscillator =
  osc_wave :: string
  osc_wave_func :: WaveGenerator

definition Oscillator_init :: "string \<Rightarrow> registry \<Rightarrow> (py_error + Oscillator) \<times> registry" where
  "Oscillator_init wv oscs =
     (case dict_get oscs wv of
        None \<Rightarrow> (Inl (NameError (''Wave '' @ quoted wv @ '' does not exist!'')), oscs)
      | Some f \<Rightarrow> (Inr \<lparr>osc_wave = wv, osc_wave_func = f\<rparr>, oscs))"

definition oscillate ::
  "Oscillator \<Rightarrow> Time \<Rightarrow> real \<Rightarrow> real \<Rightarrow> registry \<Rightarrow> (py_error + real list) \<times> registry" where
  "oscillate self t freq phase oscs =
     (case get_array t of
        Inl e \<Rightarrow> (Inl e, oscs)
      | Inr arr \<Rightarrow> (Inr (osc_wave_func self arr freq phase), oscs))"

definition fourier_transform ::
  "real list \<Rightarrow> registry \<Rightarrow> (py_error + real list \<times> complex list) \<times> registry" where
  "fourier_transform wv oscs =
     (case np_fft (map complex_of_real wv) of
        Inl e \<Rightarrow> (Inl e, oscs)
      | Inr fft_arr \<Rightarrow>
          (case fftfreq (int (length fft_arr)) (1 / real_of_int get_sampling_rate) of
             Inl e \<Rightarrow> (Inl e, oscs)
           | Inr freq_arr \<Rightarrow> (Inr (freq_arr, fft_arr), oscs)))"

section \<open>track.py\<close>

record Track =
  track_osc :: Oscillator
  track_steps :: "(string \<times> string) list"
  track_filters :: "(real list \<Rightarrow> real list) list"

definition Track_init :: "Oscillator \<Rightarrow> (string \<times> string) list \<Rightarrow> Track" where
  "Track_init osc steps = \<lparr>track_osc = osc, track_steps = steps, track_filters = []\<rparr>"

text \<open>
  The body of \<open>Track.compile_\<close> is a docstring followed by \<open>...\<close>: nothing is
  computed and the call returns \<open>None\<close>.
\<close>

definition Track_compile :: "Track \<Rightarrow> py_value" where
  "Track_compile self = PyNone"

section \<open>mixer.py\<close>

record Mixer =
  tracks :: "(string, Track) dict"
  levels :: "(string, real) dict"

definition Mixer_init :: Mixer where
  "Mixer_init = \<lparr>tracks = [], levels = []\<rparr>"

definition add_track :: "Mixer \<Rightarrow> Oscillator \<Rightarrow> (string \<times> string) list \<Rightarrow> string \<Rightarrow> Mixer" where
  "add_track self osc steps name =
     (let self1 = self\<lparr>tracks := setdefault (tracks self) name (Track_init osc steps)\<rparr>
      in self1\<lparr>levels := setdefault (levels self1) name 1\<rparr>)"

text \<open>
  \<open>Mixer.compile_\<close> walks the tracks in order and compiles each; the compiled track
  is bound to a local and dropped.
\<close>

fun compile_loop :: "(string \<times> Track) list \<Rightarrow> py_value \<Rightarrow> py_value" where
  "compile_loop [] compiled_track = compiled_track"
| "compile_loop ((name, track) # rest) compiled_track = compile_loop rest (Track_compile track)"

definition Mixer_compile :: "Mixer \<Rightarrow> Mixer" where
  "Mixer_compile self = (let compiled_track = compile_loop (tracks self) PyNone in self)"

definition play :: "Mixer \<Rightarrow> Mixer" where
  "play self = self"

definition compile_play :: "Mixer \<Rightarrow> Mixer" where
  "compile_play self = play (Mixer_compile self)"

text \<open>A call of one of the mixer's methods, and a sequence of calls on a fresh mixer.\<close>

datatype mixer_call =
    Add_track Oscillator "(string \<times> string) list" string
  | Compile
  | Play
  | Compile_play

fun mixer_step :: "Mixer \<Rightarrow> mixer_call \<Rightarrow> Mixer" where
  "mixer_step self (Add_track osc steps name) = add_track self osc steps name"
| "mixer_step self Compile = Mixer_compile self"
| "mixer_step self Play = play self"
| "mixer_step self Compile_play = compile_play self"

definition mixer_run :: "mixer_call list \<Rightarrow> Mixer" where
  "mixer_run calls = foldl mixer_step Mixer_init calls"

section \<open>Time sampling\<close>







section \<open>Dictionaries, the mixer and the registry\<close>

lemma keys_setdefault: "keys (setdefault d k v) = insert k (keys d)"
  by (auto simp: setdefault_def keys_def)

lemma dict_get_None_iff: "dict_get d k = None \<longleftrightarrow> k \<notin> keys d"
  by (simp add: dict_get_def keys_def map_of_eq_None_iff)

lemma dict_get_append_new:
  "k \<notin> keys d \<Longrightarrow> dict_get (d @ [(k, v)]) k' = (if k' = k then Some v else dict_get d k')"
proof -
  assume "k \<notin> keys d"
  then have none: "map_of d k = None"
    by (simp add: keys_def map_of_eq_None_iff)
  show ?thesis
  proof (cases "map_of d k'")
    case None
    then show ?thesis by (simp add: dict_get_def map_add_def)
  next
    case (Some w)
    with none have "k' \<noteq> k" by auto
    with Some show ?thesis by (simp add: dict_get_def map_add_def)
  qed
qed

lemma tracks_add_track:
  "tracks (add_track self osc steps name) = setdefault (tracks self) name (Track_init osc steps)"
  by (simp add: add_track_def Let_def)

lemma levels_add_track:
  "levels (add_track self osc steps name) = setdefault (levels self) name 1"
  by (simp add: add_track_def Let_def)

lemma keys_oscs_init: "keys oscs_init = {''Sine'', ''Square'', ''Triangle'', ''Sawtooth''}"
  by (simp add: oscs_init_def keys_def)

lemma dict_get_oscs_init_Sine: "dict_get oscs_init ''Sine'' = Some generate_sin"
  by (simp add: dict_get_def oscs_init_def)

text \<open>
  Claim C5. \<open>add_track\<close> under a name that the mixer does not hold appends the new
  track under that name and the level \<open>1.0\<close>, and changes no other entry; under a name
  that it holds, the stored track and the stored level stay as they are, and with the
  name in both dictionaries the mixer after the call is the mixer before it.
\<close>

theorem add_track_inserts_or_keeps:
  "(name \<notin> keys (tracks self) \<longrightarrow>
      tracks (add_track self osc steps name) = tracks self @ [(name, Track_init osc steps)]
    \<and> dict_get (tracks (add_track self osc steps name)) name = Some (Track_init osc steps)
    \<and> (\<forall>other. other \<noteq> name \<longrightarrow>
          dict_get (tracks (add_track self osc steps name)) other = dict_get (tracks self) other))
   \<and> (name \<notin> keys (levels self) \<longrightarrow>
      levels (add_track self osc steps name) = levels self @ [(name, 1)]
    \<and> dict_get (levels (add_track self osc steps name)) name = Some 1
    \<and> (\<forall>other. other \<noteq> name \<longrightarrow>
          dict_get (levels (add_track self osc steps name)) other = dict_get (levels self) other))
   \<and> (name \<in> keys (tracks self) \<longrightarrow> tracks (add_track self osc steps name) = tracks self)
   \<and> (name \<in> keys (levels self) \<longrightarrow> levels (add_track self osc steps name) = levels self)
   \<and> (name \<in> keys (tracks self) \<and> name \<in> keys (levels self) \<longrightarrow>
        add_track self osc steps name = self)"
proof (intro conjI impI allI)
  assume n: "name \<notin> keys (tracks self)"
  show "tracks (add_track self osc steps name) = tracks self @ [(name, Track_init osc steps)]"
    using n by (simp add: tracks_add_track setdefault_def)
  show "dict_get (tracks (add_track self osc steps name)) name = Some (Track_init osc steps)"
    using n by (simp add: tracks_add_track setdefault_def dict_get_append_new)
  show "dict_get (tracks (add_track self osc steps name)) other = dict_get (tracks self) other"
    if "other \<noteq> name" for other
    using n that by (simp add: tracks_add_track setdefault_def dict_get_append_new)
next
  assume n: "name \<notin> keys (levels self)"
  show "levels (add_track self osc steps name) = levels self @ [(name, 1)]"
    using n by (simp add: levels_add_track setdefault_def)
  show "dict_get (levels (add_track self osc steps name)) name = Some 1"
    using n by (simp add: levels_add_track setdefault_def dict_get_append_new)
  show "dict_get (levels (add_track self osc steps name)) other = dict_get (levels self) other"
    if "other \<noteq> name" for other
    using n that by (simp add: levels_add_track setdefault_def dict_get_append_new)
next
  assume "name \<in> keys (tracks self)"
  then show "tracks (add_track self osc steps name) = tracks self"
    by (simp add: tracks_add_track setdefault_def)
next
  assume "name \<in> keys (levels self)"
  then show "levels (add_track self osc steps name) = levels self"
    by (simp add: levels_add_track setdefault_def)
next
  assume "name \<in> keys (tracks self) \<and> name \<in> keys (levels self)"
  then show "add_track self osc steps name = self"
    by (simp add: add_track_def setdefault_def Let_def)
qed

theorem add_track_inserts_or_keeps_witness:
  "''lead'' \<notin> keys (tracks Mixer_init) \<and> ''lead'' \<notin> keys (levels Mixer_init)
   \<and> ''bass'' \<noteq> ''lead''
   \<and> tracks (add_track Mixer_init \<lparr>osc_wave = ''Sine'', osc_wave_func = generate_sin\<rparr> [] ''lead'')
       = tracks Mixer_init @ [(''lead'', Track_init \<lparr>osc_wave = ''Sine'', osc_wave_func = generate_sin\<rparr> [])]
   \<and> dict_get (levels (add_track Mixer_init \<lparr>osc_wave = ''Sine'', osc_wave_func = generate_sin\<rparr> [] ''lead'')) ''lead''
       = Some 1
   \<and> dict_get (tracks (add_track Mixer_init \<lparr>osc_wave = ''Sine'', osc_wave_func = generate_sin\<rparr> [] ''lead'')) ''bass''
       = dict_get (tracks Mixer_init) ''bass''
   \<and> ''lead'' \<in> keys (tracks \<lparr>tracks = [(''lead'', Track_init \<lparr>osc_wave = ''Sine'', osc_wave_func = generate_sin\<rparr> [])],
                                levels = [(''lead'', 1 / 2)]\<rparr>)
   \<and> ''lead'' \<in> keys (levels \<lparr>tracks = [(''lead'', Track_init \<lparr>osc_wave = ''Sine'', osc_wave_func = generate_sin\<rparr> [])],
                                levels = [(''lead'', 1 / 2)]\<rparr>)
   \<and> add_track \<lparr>tracks = [(''lead'', Track_init \<lparr>osc_wave = ''Sine'', osc_wave_func = generate_sin\<rparr> [])],
                  levels = [(''lead'', 1 / 2)]\<rparr>
         \<lparr>osc_wave = ''Square'', osc_wave_func = generate_sqr\<rparr> [(''A4'', ''1/4'')] ''lead''
       = \<lparr>tracks = [(''lead'', Track_init \<lparr>osc_wave = ''Sine'', osc_wave_func = generate_sin\<rparr> [])],
          levels = [(''lead'', 1 / 2)]\<rparr>"
proof -
  let ?sine = "\<lparr>osc_wave = ''Sine'', osc_wave_func = generate_sin\<rparr>"
  let ?m = "\<lparr>tracks = [(''lead'', Track_init ?sine [])], levels = [(''lead'', 1 / 2)]\<rparr>"
  have fresh_t: "''lead'' \<notin> keys (tracks Mixer_init)"
    by (simp add: Mixer_init_def keys_def)
  have fresh_l: "''lead'' \<notin> keys (levels Mixer_init)"
    by (simp add: Mixer_init_def keys_def)
  have other: "''bass'' \<noteq> ''lead''" by simp
  have present_t: "''lead'' \<in> keys (tracks ?m)"
    by (simp add: keys_def)
  have present_l: "''lead'' \<in> keys (levels ?m)"
    by (simp add: keys_def)
  note a = add_track_inserts_or_keeps [of "''lead''" Mixer_init ?sine "[]"]
  note b = add_track_inserts_or_keeps
    [of "''lead''" ?m "\<lparr>osc_wave = ''Square'', osc_wave_func = generate_sqr\<rparr>" "[(''A4'', ''1/4'')]"]
  note at = a [THEN conjunct1, THEN mp, OF fresh_t]
  note al = a [THEN conjunct2, THEN conjunct1, THEN mp, OF fresh_l]
  note 1 = at [THEN conjunct1]
  note 2 = al [THEN conjunct2, THEN conjunct1]
  note 3 = at [THEN conjunct2, THEN conjunct2, THEN spec, THEN mp, OF other]
  note 4 = b [THEN conjunct2, THEN conjunct2, THEN conjunct2, THEN conjunct2, THEN mp,
      OF conjI, OF present_t present_l]
  show ?thesis
    by (intro conjI) (rule fresh_t fresh_l other 1 2 3 present_t present_l 4)+
qed

text \<open>
  Claim C6. Registering a generator under a name that the registry holds (a built-in
  such as \<open>Sine\<close> included) raises \<open>NameError\<close> and leaves the registry as it was;
  under a fresh name the call succeeds, appends exactly that entry, and every other
  name resolves as before.
\<close>

theorem add_oscillator_duplicate_or_fresh:
  "(name \<in> keys oscs \<longrightarrow>
      add_oscillator name wave_func oscs =
        (Inl (NameError (''Wave name '' @ quoted name @ '' already exists!'')), oscs))
   \<and> (name \<notin> keys oscs \<longrightarrow>
        fst (add_oscillator name wave_func oscs) = Inr ()
      \<and> snd (add_oscillator name wave_func oscs) = oscs @ [(name, wave_func)]
      \<and> keys (snd (add_oscillator name wave_func oscs)) = insert name (keys oscs)
      \<and> dict_get (snd (add_oscillator name wave_func oscs)) name = Some wave_func
      \<and> (\<forall>other. other \<noteq> name \<longrightarrow>
            dict_get (snd (add_oscillator name wave_func oscs)) other = dict_get oscs other))"
proof (intro conjI impI allI)
  assume "name \<in> keys oscs"
  then show "add_oscillator name wave_func oscs =
      (Inl (NameError (''Wave name '' @ quoted name @ '' already exists!'')), oscs)"
    by (simp add: add_oscillator_def)
next
  assume n: "name \<notin> keys oscs"
  then have eq: "add_oscillator name wave_func oscs = (Inr (), oscs @ [(name, wave_func)])"
    by (simp add: add_oscillator_def)
  show "fst (add_oscillator name wave_func oscs) = Inr ()"
    by (simp add: eq)
  show "snd (add_oscillator name wave_func oscs) = oscs @ [(name, wave_func)]"
    by (simp add: eq)
  show "keys (snd (add_oscillator name wave_func oscs)) = insert name (keys oscs)"
    by (auto simp: eq keys_def)
  show "dict_get (snd (add_oscillator name wave_func oscs)) name = Some wave_func"
    by (simp add: eq dict_get_append_new [OF n])
  show "dict_get (snd (add_oscillator name wave_func oscs)) other = dict_get oscs other"
    if "other \<noteq> name" for other
    using that by (simp add: eq dict_get_append_new [OF n])
qed

theorem add_oscillator_duplicate_or_fresh_witness:
  "''Sine'' \<in> keys oscs_init
   \<and> add_oscillator ''Sine'' generate_saw oscs_init =
       (Inl (NameError (''Wave name '' @ quoted ''Sine'' @ '' already exists!'')), oscs_init)
   \<and> dict_get (snd (add_oscillator ''Sine'' generate_saw oscs_init)) ''Sine'' = Some generate_sin
   \<and> ''Noise'' \<notin> keys oscs_init \<and> ''Sine'' \<noteq> ''Noise''
   \<and> fst (add_oscillator ''Noise'' generate_saw oscs_init) = Inr ()
   \<and> dict_get (snd (add_oscillator ''Noise'' generate_saw oscs_init)) ''Noise'' = Some generate_saw
   \<and> dict_get (snd (add_oscillator ''Noise'' generate_saw oscs_init)) ''Sine'' = Some generate_sin"
proof -
  have dup: "''Sine'' \<in> keys oscs_init"
    by (simp add: keys_oscs_init)
  have fresh: "''Noise'' \<notin> keys oscs_init"
    by (simp add: keys_oscs_init)
  have other: "''Sine'' \<noteq> ''Noise''" by simp
  note a = add_oscillator_duplicate_or_fresh [of "''Sine''" oscs_init generate_saw]
  note b = add_oscillator_duplicate_or_fresh [of "''Noise''" oscs_init generate_saw]
  note 1 = a [THEN conjunct1, THEN mp, OF dup]
  have 2: "dict_get (snd (add_oscillator ''Sine'' generate_saw oscs_init)) ''Sine'' = Some generate_sin"
    unfolding 1 snd_conv by (rule dict_get_oscs_init_Sine)
  note f = b [THEN conjunct2, THEN mp, OF fresh]
  note 3 = f [THEN conjunct1]
  note 4 = f [THEN conjunct2, THEN conjunct2, THEN conjunct2, THEN conjunct1]
  note 5 = f [THEN conjunct2, THEN conjunct2, THEN conjunct2, THEN conjunct2, THEN spec, THEN mp, OF other]
  have 6: "dict_get (snd (add_oscillator ''Noise'' generate_saw oscs_init)) ''Sine'' = Some generate_sin"
    unfolding 5 by (rule dict_get_oscs_init_Sine)
  show ?thesis
    by (intro conjI) (rule dup 1 2 fresh other 3 4 6)+
qed

section \<open>Oscillators\<close>

text \<open>
  A duration of \<open>2^-15\<close> seconds: the product with the rate, \<open>1.3458251953125\<close>, and
  the single sample \<open>0 * step + start\<close> are exact in doubles as well.
\<close>

lemma get_array_one:
  "get_array \<lparr>duration = 1 / 32768, start = 2\<rparr> = Inr [2]"
  by (simp add: get_array_def linspace_def py_int_def sampling_rate_def Let_def upto.simps)

text \<open>
  Claim C7. Constructing an oscillator raises \<open>NameError\<close> exactly when the wave name
  is not a key of the registry at that moment. Otherwise the oscillator holds the
  generator that the registry gave for the name, and \<open>oscillate\<close> applies that stored
  generator to the time array: its result is the same in whatever registry the call
  runs later.
\<close>

theorem Oscillator_binds_at_construction:
  "(wv \<notin> keys oscs \<longrightarrow>
      fst (Oscillator_init wv oscs) = Inl (NameError (''Wave '' @ quoted wv @ '' does not exist!'')))
   \<and> (wv \<in> keys oscs \<longrightarrow>
        (\<exists>self. fst (Oscillator_init wv oscs) = Inr self
           \<and> osc_wave self = wv
           \<and> dict_get oscs wv = Some (osc_wave_func self)
           \<and> (\<forall>oscs'. fst (oscillate self t freq phase oscs')
                        = fst (oscillate self t freq phase oscs))
           \<and> (\<forall>arr. get_array t = Inr arr \<longrightarrow>
                 (\<forall>oscs'. fst (oscillate self t freq phase oscs')
                            = Inr (osc_wave_func self arr freq phase)))))
   \<and> snd (Oscillator_init wv oscs) = oscs"
proof (intro conjI impI)
  assume "wv \<notin> keys oscs"
  then have "dict_get oscs wv = None" by (simp add: dict_get_None_iff)
  then show "fst (Oscillator_init wv oscs) = Inl (NameError (''Wave '' @ quoted wv @ '' does not exist!''))"
    by (simp add: Oscillator_init_def)
next
  assume "wv \<in> keys oscs"
  then have "dict_get oscs wv \<noteq> None" by (simp add: dict_get_None_iff)
  then obtain f where f: "dict_get oscs wv = Some f" by blast
  let ?self = "\<lparr>osc_wave = wv, osc_wave_func = f\<rparr>"
  have 1: "fst (Oscillator_init wv oscs) = Inr ?self"
    by (simp add: Oscillator_init_def f)
  have 2: "fst (oscillate ?self t freq phase oscs') = fst (oscillate ?self t freq phase oscs)" for oscs'
    by (simp add: oscillate_def split: sum.splits)
  have 3: "fst (oscillate ?self t freq phase oscs') = Inr (osc_wave_func ?self arr freq phase)"
    if "get_array t = Inr arr" for arr oscs'
    using that by (simp add: oscillate_def f)
  show "\<exists>self. fst (Oscillator_init wv oscs) = Inr self
           \<and> osc_wave self = wv
           \<and> dict_get oscs wv = Some (osc_wave_func self)
           \<and> (\<forall>oscs'. fst (oscillate self t freq phase oscs')
                        = fst (oscillate self t freq phase oscs))
           \<and> (\<forall>arr. get_array t = Inr arr \<longrightarrow>
                 (\<forall>oscs'. fst (oscillate self t freq phase oscs')
                            = Inr (osc_wave_func self arr freq phase)))"
    using 1 2 3 f by (intro exI [of _ ?self]) simp
next
  show "snd (Oscillator_init wv oscs) = oscs"
    by (simp add: Oscillator_init_def split: option.splits)
qed

theorem Oscillator_binds_at_construction_witness:
  "''Noise'' \<notin> keys oscs_init
   \<and> fst (Oscillator_init ''Noise'' oscs_init)
       = Inl (NameError (''Wave '' @ quoted ''Noise'' @ '' does not exist!''))
   \<and> ''Sine'' \<in> keys oscs_init
   \<and> get_array \<lparr>duration = 1 / 32768, start = 2\<rparr> = Inr [2]
   \<and> (\<exists>self. fst (Oscillator_init ''Sine'' oscs_init) = Inr self
         \<and> dict_get oscs_init ''Sine'' = Some (osc_wave_func self)
         \<and> fst (oscillate self \<lparr>duration = 1 / 32768, start = 2\<rparr> 1 0 [(''Sine'', generate_saw)])
             = Inr (osc_wave_func self [2] 1 0))"
proof -
  let ?t = "\<lparr>duration = 1 / 32768, start = 2\<rparr>"
  have absent: "''Noise'' \<notin> keys oscs_init"
    by (simp add: keys_oscs_init)
  have present: "''Sine'' \<in> keys oscs_init"
    by (simp add: keys_oscs_init)
  note a = Oscillator_binds_at_construction [of "''Noise''" oscs_init ?t 1 0]
  note b = Oscillator_binds_at_construction [of "''Sine''" oscs_init ?t 1 0]
  note 1 = a [THEN conjunct1, THEN mp, OF absent]
  from b [THEN conjunct2, THEN conjunct1, THEN mp, OF present] obtain self where
    s1: "fst (Oscillator_init ''Sine'' oscs_init) = Inr self"
    and s2: "dict_get oscs_init ''Sine'' = Some (osc_wave_func self)"
    and s3: "\<forall>arr. get_array ?t = Inr arr \<longrightarrow>
                 (\<forall>oscs'. fst (oscillate self ?t 1 0 oscs') = Inr (osc_wave_func self arr 1 0))"
    by (elim exE conjE)
  note 2 = s3 [THEN spec, THEN mp, OF get_array_one, THEN spec, of "[(''Sine'', generate_saw)]"]
  have 3: "\<exists>self. fst (Oscillator_init ''Sine'' oscs_init) = Inr self
         \<and> dict_get oscs_init ''Sine'' = Some (osc_wave_func self)
         \<and> fst (oscillate self ?t 1 0 [(''Sine'', generate_saw)])
             = Inr (osc_wave_func self [2] 1 0)"
    by (rule exI [of _ self]) (intro conjI, rule s1, rule s2, rule 2)
  show ?thesis
    by (intro conjI) (rule absent 1 present get_array_one 3)+
qed

section \<open>The mixer's dictionaries\<close>

lemma keys_tracks_add_track:
  "keys (tracks (add_track self osc steps name)) = insert name (keys (tracks self))"
  by (simp add: tracks_add_track keys_setdefault)

lemma keys_levels_add_track:
  "keys (levels (add_track self osc steps name)) = insert name (keys (levels self))"
  by (simp add: levels_add_track keys_setdefault)

lemma mixer_step_keeps_keys:
  "keys (tracks self) = keys (levels self) \<Longrightarrow>
   keys (tracks (mixer_step self c)) = keys (levels (mixer_step self c))"
  by (cases c)
     (simp_all add: keys_tracks_add_track keys_levels_add_track Mixer_compile_def play_def
        compile_play_def Let_def)

lemma foldl_mixer_step_keeps_keys:
  "keys (tracks self) = keys (levels self) \<Longrightarrow>
   keys (tracks (foldl mixer_step self calls)) = keys (levels (foldl mixer_step self calls))"
  by (induction calls arbitrary: self) (simp_all add: mixer_step_keeps_keys)

text \<open>
  Claim C9. In a fresh mixer and after any sequence of \<open>add_track\<close>, \<open>compile_\<close>,
  \<open>play\<close> and \<open>compile_play\<close> calls, with any arguments, the tracks and the levels
  have the same set of keys.
\<close>

theorem mixer_keys_agree:
  "keys (tracks (mixer_run calls)) = keys (levels (mixer_run calls))"
  unfolding mixer_run_def
  by (rule foldl_mixer_step_keeps_keys) (simp add: Mixer_init_def keys_def)

section \<open>Track compilation\<close>

text \<open>
  Claim C3 asks \<open>Track.compile_\<close> to oscillate every step and to return the joined
  buffers. On a track with the one step \<open>('A4', '1/4')\<close> the function returns
  \<open>None\<close>, which is no array at all.
\<close>

theorem Track_compile_returns_None:
  "Track_compile (Track_init \<lparr>osc_wave = ''Sine'', osc_wave_func = generate_sin\<rparr> [(''A4'', ''1/4'')])
     = PyNone
   \<and> (\<forall>buffer. Track_compile
          (Track_init \<lparr>osc_wave = ''Sine'', osc_wave_func = generate_sin\<rparr> [(''A4'', ''1/4'')])
        \<noteq> NDArray buffer)"
  by (simp add: Track_compile_def)

text \<open>
  Claim C4 asks \<open>Track.compile_\<close> to return an empty buffer for an empty step list.
  The call does not raise, but what it returns is \<open>None\<close>, not the empty array.
\<close>

theorem Track_compile_empty_returns_None:
  "Track_compile (Track_init \<lparr>osc_wave = ''Sine'', osc_wave_func = generate_sin\<rparr> []) = PyNone
   \<and> Track_compile (Track_init \<lparr>osc_wave = ''Sine'', osc_wave_func = generate_sin\<rparr> []) \<noteq> NDArray []"
  by (simp add: Track_compile_def)

section \<open>Fourier transform\<close>

lemma str_int_0: "str_int 0 = ''0''"
  by code_simp

lemma np_fft_empty:
  "np_fft [] = Inl (ValueError ''Invalid number of FFT data points (0) specified.'')"
  by (simp add: np_fft_def str_int_0)

lemma np_fft_nonempty: "a \<noteq> [] \<Longrightarrow> \<exists>out. np_fft a = Inr out \<and> length out = length a"
  by (cases a) (simp_all add: np_fft_def Let_def)

lemma fftfreq_length:
  assumes "0 < n" "d \<noteq> 0"
  shows "\<exists>out. fftfreq n d = Inr out \<and> int (length out) = n"
proof -
  have nz: "real_of_int n * d \<noteq> 0" using assms by simp
  have e: "(n - 1) div 2 + 1 + n div 2 = n"
    by presburger
  have p1: "0 \<le> (n - 1) div 2 + 1" and p2: "0 \<le> n div 2"
    using assms(1) by simp_all
  have "nat ((n - 1) div 2 + 1) + nat (n div 2) = nat ((n - 1) div 2 + 1 + n div 2)"
    using p1 p2 by (simp only: nat_add_distrib)
  then have "nat ((n - 1) div 2 + 1) + nat (n div 2) = nat n"
    by (simp only: e)
  then have "int (length ([0..(n - 1) div 2 + 1 - 1] @ [- (n div 2)..- 1])) = n"
    using assms(1) by simp
  then show ?thesis
    using nz by (simp add: fftfreq_def Let_def)
qed

text \<open>
  Claim C10, as stated: every buffer of length \<open>N\<close> gives two arrays of length \<open>N\<close>.
  For the empty buffer \<open>np.fft.fft\<close> raises \<open>ValueError\<close> and no pair is returned.
\<close>

theorem fourier_transform_empty_raises:
  "fourier_transform [] oscs_init =
     (Inl (ValueError ''Invalid number of FFT data points (0) specified.''), oscs_init)"
  by (simp add: fourier_transform_def np_fft_empty)

text \<open>
  Claim C10, amended. For a buffer of length \<open>N \<ge> 1\<close>, \<open>fourier_transform\<close> returns a
  pair of arrays that both have length \<open>N\<close>; for the empty buffer it raises
  \<open>ValueError\<close>. Either way the registry after the call is the registry before it.
\<close>

theorem fourier_transform_lengths:
  "(wv \<noteq> [] \<longrightarrow>
      (\<exists>freq_arr fft_arr. fourier_transform wv oscs = (Inr (freq_arr, fft_arr), oscs)
          \<and> length freq_arr = length wv \<and> length fft_arr = length wv))
   \<and> (wv = [] \<longrightarrow> (\<exists>msg. fourier_transform wv oscs = (Inl (ValueError msg), oscs)))
   \<and> snd (fourier_transform wv oscs) = oscs"
proof -
  have a: "\<exists>freq_arr fft_arr. fourier_transform wv oscs = (Inr (freq_arr, fft_arr), oscs)
          \<and> length freq_arr = length wv \<and> length fft_arr = length wv" if ne: "wv \<noteq> []"
  proof -
    from ne have "map complex_of_real wv \<noteq> []" by simp
    from np_fft_nonempty [OF this] obtain fft_arr where
      f: "np_fft (map complex_of_real wv) = Inr fft_arr" and lf: "length fft_arr = length wv"
      by auto
    have pos: "0 < int (length fft_arr)" using ne lf by simp
    have d: "1 / real_of_int get_sampling_rate \<noteq> 0"
      by (simp add: get_sampling_rate_def sampling_rate_def)
    from fftfreq_length [OF pos d] obtain freq_arr where
      q: "fftfreq (int (length fft_arr)) (1 / real_of_int get_sampling_rate) = Inr freq_arr"
      and lq: "int (length freq_arr) = int (length fft_arr)"
      by auto
    have "fourier_transform wv oscs = (Inr (freq_arr, fft_arr), oscs)"
      by (simp add: fourier_transform_def f q)
    with lf lq show ?thesis by simp
  qed
  have b: "\<exists>msg. fourier_transform wv oscs = (Inl (ValueError msg), oscs)" if "wv = []"
    using that by (simp add: fourier_transform_def np_fft_empty)
  have c: "snd (fourier_transform wv oscs) = oscs"
    by (simp add: fourier_transform_def split: sum.splits)
  from a b c show ?thesis by blast
qed

theorem fourier_transform_lengths_witness:
  "[1, 0 :: real] \<noteq> []
   \<and> (\<exists>freq_arr fft_arr.
         fourier_transform [1, 0] oscs_init = (Inr (freq_arr, fft_arr), oscs_init)
         \<and> length freq_arr = length [1, 0 :: real] \<and> length fft_arr = length [1, 0 :: real])
   \<and> ([] :: real list) = []
   \<and> (\<exists>msg. fourier_transform [] oscs_init = (Inl (ValueError msg), oscs_init))"
proof -
  have ne: "[1, 0 :: real] \<noteq> []" by simp
  have em: "([] :: real list) = []" by simp
  note 1 = fourier_transform_lengths [of "[1, 0]" oscs_init, THEN conjunct1, THEN mp, OF ne]
  note 2 = fourier_transform_lengths [of "[]" oscs_init, THEN conjunct2, THEN conjunct1, THEN mp, OF em]
  show ?thesis
    by (intro conjI) (rule ne 1 em 2)+
qed

end
